theory Spec2Isabelle
  imports Main "HOL-Library.Word"
begin

section \<open>The OpenAPI import handler of http2mcp\<close>

text \<open>
  The development embeds \<^verbatim>\<open>internal/apiserver/handler/openapi.go\<close>: the handler
  struct \<^verbatim>\<open>OpenAPI\<close> and its one method \<^verbatim>\<open>HandleImport\<close>. The method receives an
  uploaded file and two form values, converts the file's bytes to an MCP server
  configuration, stores the configuration and notifies the gateway.

  The packages the handler calls (gin, zap, i18n, the converter, the store and the
  notifier) are not part of the embedded source. What the handler needs of them is taken
  as data of the request or as a parameter:
  \<^item> a Go \<^verbatim>\<open>error\<close> is the string its \<^verbatim>\<open>Error()\<close> method returns; a call that returns
    \<^verbatim>\<open>(T, error)\<close> is a sum (\<open>Inl\<close> the error), a call that returns \<^verbatim>\<open>error\<close> alone is
    an \<open>option\<close> (\<open>None\<close> for \<^verbatim>\<open>nil\<close>);
  \<^item> the methods of the converter, the store and the notifier are the fields of an
    environment record; the store and the notifier are stateful, so their methods take
    and return the state of the object they belong to;
  \<^item> the handler struct is the record of the states of its injected dependencies; the
    entries the logger receives are appended to its field;
  \<^item> every call that leaves the handler is recorded, in program order, in a list of
    events, next to the outcome of the request.
\<close>

subsection \<open>Data\<close>

type_synonym byte = "8 word"

type_synonym err = string

text \<open>
  \<^verbatim>\<open>config.MCPConfig\<close>: the handler reads the field \<^verbatim>\<open>Name\<close> only; the other fields are
  the extension part of the record. The Go variable is a pointer that the handler hands
  on and never writes through; the model hands on the value. A converter that returned
  neither an error nor a configuration is outside this model.
\<close>

record MCPConfig =
  Name :: string

text \<open>The fields given to a zap log call, and the three levels the handler logs at.\<close>

datatype zap_field = zString string string | zInt64 string int | zError err

datatype zap_level = DebugLevel | InfoLevel | ErrorLevel

type_synonym log_entry = "zap_level \<times> string \<times> zap_field list"

text \<open>
  \<^verbatim>\<open>multipart.File\<close>: \<open>Read f n\<close> is what one call of \<^verbatim>\<open>f.Read(p)\<close> with
  \<^verbatim>\<open>len(p) = n\<close> delivers: the bytes it writes to the front of \<^verbatim>\<open>p\<close> and its error.
\<close>

record File =
  Read :: "nat \<Rightarrow> byte list \<times> err option"

text \<open>\<^verbatim>\<open>multipart.FileHeader\<close>; \<open>Open\<close> is the result of \<^verbatim>\<open>file.Open()\<close>.\<close>

record FileHeader =
  Filename :: string
  Size :: int
  Open :: "err + File"

text \<open>
  \<^verbatim>\<open>gin.Context\<close>, as far as the handler reads it: \<^verbatim>\<open>c.FormFile(name)\<close>,
  \<^verbatim>\<open>c.PostForm(key)\<close> (the empty string when the key is absent) and
  \<^verbatim>\<open>c.Request.Context()\<close>.
\<close>

record 'ctx Context =
  FormFile :: "string \<Rightarrow> err + FileHeader"
  PostForm :: "string \<Rightarrow> string"
  Request_Context :: 'ctx

text \<open>The i18n errors and the success message the handler answers with.\<close>

datatype i18n_error = ErrBadRequest | ErrInternalServer

datatype i18n_message = SuccessOpenAPIImported

datatype 'm json_value = JString string | JConfig "'m MCPConfig_scheme"

datatype 'm response =
    RespondWithError i18n_error "(string \<times> string) list"
  | Created i18n_message "(string \<times> 'm json_value) list"

text \<open>A request ends with a response, or with a run-time panic of the handler.\<close>

datatype 'm outcome = Responded "'m response" | Panic string

datatype ('ctx, 'm) event =
    FileOpen
  | FileRead nat
  | FileClose
  | NewConverter
  | ConvertCall "byte list"
  | ConvertWithOptionsCall "byte list" string string
  | CreateCall 'ctx "'m MCPConfig_scheme"
  | NotifyUpdateCall 'ctx "'m MCPConfig_scheme"
  | Send "'m response"

text \<open>
  The methods of the collaborators: \<^verbatim>\<open>Convert\<close> and \<^verbatim>\<open>ConvertWithOptions\<close> of the
  converter that \<^verbatim>\<open>openapi.NewConverter()\<close> makes afresh for each request,
  \<^verbatim>\<open>storage.Store.Create\<close> and \<^verbatim>\<open>notifier.Notifier.NotifyUpdate\<close>.
\<close>

record ('st, 'nt, 'ctx, 'm) env =
  Convert :: "byte list \<Rightarrow> err + 'm MCPConfig_scheme"
  ConvertWithOptions :: "byte list \<Rightarrow> string \<Rightarrow> string \<Rightarrow> err + 'm MCPConfig_scheme"
  Create :: "'ctx \<Rightarrow> 'm MCPConfig_scheme \<Rightarrow> 'st \<Rightarrow> err option \<times> 'st"
  NotifyUpdate :: "'ctx \<Rightarrow> 'm MCPConfig_scheme \<Rightarrow> 'nt \<Rightarrow> err option \<times> 'nt"

text \<open>
  The struct \<^verbatim>\<open>OpenAPI\<close>. The interface \<^verbatim>\<open>database.Database\<close> is not in the source, so
  the database is a value of any type \<open>'db\<close>.
\<close>

record ('db, 'st, 'nt) OpenAPI =
  db :: 'db
  store :: 'st
  notifier :: 'nt
  logger :: "log_entry list"

record ('db, 'st, 'nt, 'ctx, 'm) result =
  handler :: "('db, 'st, 'nt) OpenAPI"
  outcome :: "'m outcome"
  calls :: "('ctx, 'm) event list"

subsection \<open>Operations\<close>

definition NewOpenAPI :: "'db \<Rightarrow> 'st \<Rightarrow> 'nt \<Rightarrow> log_entry list \<Rightarrow> ('db, 'st, 'nt) OpenAPI" where
  "NewOpenAPI d s ntf lg = \<lparr>db = d, store = s, notifier = ntf, logger = lg\<rparr>"

definition zap_log ::
  "zap_level \<Rightarrow> ('db, 'st, 'nt) OpenAPI \<Rightarrow> string \<Rightarrow> zap_field list \<Rightarrow> ('db, 'st, 'nt) OpenAPI" where
  "zap_log l h msg fs = h\<lparr>logger := logger h @ [(l, msg, fs)]\<rparr>"

text \<open>\<^verbatim>\<open>make([]byte, n)\<close>: \<open>n\<close> zero bytes; Go panics when \<open>n\<close> is negative.\<close>

definition make_bytes :: "int \<Rightarrow> byte list option" where
  "make_bytes n = (if n < 0 then None else Some (replicate (nat n) 0))"

text \<open>
  The buffer after \<^verbatim>\<open>f.Read(p)\<close>: the bytes delivered overwrite the front of \<^verbatim>\<open>p\<close>, the
  rest of \<^verbatim>\<open>p\<close> is as it was. A reader delivers at most \<^verbatim>\<open>len(p)\<close> bytes.
\<close>

definition read_into :: "byte list \<Rightarrow> byte list \<Rightarrow> byte list" where
  "read_into p data = (let n = min (length data) (length p) in take n data @ drop n p)"

text \<open>\<^verbatim>\<open>i18n.Err.WithParam("Reason", r)\<close> handed to \<^verbatim>\<open>i18n.RespondWithError\<close>.\<close>

definition WithReason :: "i18n_error \<Rightarrow> string \<Rightarrow> 'm response" where
  "WithReason e r = RespondWithError e [(''Reason'', r)]"

text \<open>
  \<^verbatim>\<open>HandleImport\<close> is embedded in the order of its statements, cut at its four calls
  that can fail after the file is open; each part below is the rest of the method from
  one such point on, so the parts are defined last first. The handler struct \<open>h\<close>, the
  request \<open>c\<close> and the events so far \<open>t\<close> are handed from part to part.
\<close>

text \<open>
  Lines 76 to 82, the choice of the converter's method: the result of the call and the
  event that records it.
\<close>

definition convert_spec ::
  "('st, 'nt, 'ctx, 'm) env \<Rightarrow> byte list \<Rightarrow> string \<Rightarrow> string
     \<Rightarrow> (err + 'm MCPConfig_scheme) \<times> ('ctx, 'm) event" where
  "convert_spec E content tenant prefix =
     (if tenant = '''' \<and> prefix = ''''
      then (Convert E content, ConvertCall content)
      else (ConvertWithOptions E content tenant prefix,
            ConvertWithOptionsCall content tenant prefix))"

text \<open>Lines 102 to 118: notify the gateway, then answer.\<close>

definition notify_gateway ::
  "('st, 'nt, 'ctx, 'm) env \<Rightarrow> ('db, 'st, 'nt) OpenAPI \<Rightarrow> 'ctx Context
     \<Rightarrow> ('ctx, 'm) event list \<Rightarrow> 'm MCPConfig_scheme \<Rightarrow> ('db, 'st, 'nt, 'ctx, 'm) result" where
  "notify_gateway E h c t config =
    (let h = zap_log DebugLevel h ''notifying gateway about the update'' [];
         t = t @ [NotifyUpdateCall (Request_Context c) config]
     in
     case NotifyUpdate E (Request_Context c) config (notifier h) of (nerr, nt) \<Rightarrow>
       (let h = h\<lparr>notifier := nt\<rparr> in
        case nerr of
          Some e \<Rightarrow>
            (let h = zap_log ErrorLevel h ''failed to notify gateway''
                       [zString ''server_name'' (Name config), zError e];
                 r = WithReason ErrInternalServer (''Failed to notify gateway: '' @ e)
             in \<lparr>handler = h, outcome = Responded r, calls = t @ [Send r]\<rparr>)
        | None \<Rightarrow>
            (let h = zap_log InfoLevel h ''OpenAPI imported successfully''
                       [zString ''server_name'' (Name config)];
                 r = Created SuccessOpenAPIImported
                       [(''status'', JString ''success''), (''config'', JConfig config)]
             in \<lparr>handler = h, outcome = Responded r, calls = t @ [Send r]\<rparr>)))"

text \<open>Lines 89 to 100: store the configuration; lines 102 to 118 follow.\<close>

definition create_server ::
  "('st, 'nt, 'ctx, 'm) env \<Rightarrow> ('db, 'st, 'nt) OpenAPI \<Rightarrow> 'ctx Context
     \<Rightarrow> ('ctx, 'm) event list \<Rightarrow> 'm MCPConfig_scheme \<Rightarrow> ('db, 'st, 'nt, 'ctx, 'm) result" where
  "create_server E h c t config =
    (let h = zap_log InfoLevel h ''OpenAPI specification converted successfully''
               [zString ''server_name'' (Name config)];
         h = zap_log DebugLevel h ''creating MCP server configuration'' [];
         t = t @ [CreateCall (Request_Context c) config]
     in
     case Create E (Request_Context c) config (store h) of (cerr, st) \<Rightarrow>
       (let h = h\<lparr>store := st\<rparr> in
        case cerr of
          Some e \<Rightarrow>
            (let h = zap_log ErrorLevel h ''failed to create MCP server''
                       [zString ''server_name'' (Name config), zError e];
                 r = WithReason ErrInternalServer (''Failed to create MCP server: '' @ e)
             in \<lparr>handler = h, outcome = Responded r, calls = t @ [Send r]\<rparr>)
        | None \<Rightarrow> notify_gateway E h c t config))"

text \<open>Lines 69 to 87: read the two form values and convert; lines 89 to 118 follow.\<close>

definition convert_content ::
  "('st, 'nt, 'ctx, 'm) env \<Rightarrow> ('db, 'st, 'nt) OpenAPI \<Rightarrow> 'ctx Context
     \<Rightarrow> ('ctx, 'm) event list \<Rightarrow> byte list \<Rightarrow> ('db, 'st, 'nt, 'ctx, 'm) result" where
  "convert_content E h c t content =
    (let tenant = PostForm c ''tenantId'';
         prefix = PostForm c ''prefix'';
         h = zap_log DebugLevel h ''creating OpenAPI converter'' [];
         t = t @ [NewConverter]
     in
     case convert_spec E content tenant prefix of (converted, ev) \<Rightarrow>
       (let t = t @ [ev] in
        case converted of
          Inl e \<Rightarrow>
            (let h = zap_log ErrorLevel h ''failed to convert OpenAPI specification''
                       [zError e];
                 r = WithReason ErrBadRequest
                       (''Failed to convert OpenAPI specification: '' @ e)
             in \<lparr>handler = h, outcome = Responded r, calls = t @ [Send r]\<rparr>)
        | Inr config \<Rightarrow> create_server E h c t config))"

text \<open>
  Lines 59 to 67: allocate \<^verbatim>\<open>file.Size\<close> bytes and read once into them; lines 69 to 118
  follow.
\<close>

definition read_content ::
  "('st, 'nt, 'ctx, 'm) env \<Rightarrow> ('db, 'st, 'nt) OpenAPI \<Rightarrow> 'ctx Context
     \<Rightarrow> ('ctx, 'm) event list \<Rightarrow> FileHeader \<Rightarrow> File \<Rightarrow> ('db, 'st, 'nt, 'ctx, 'm) result" where
  "read_content E h c t file f =
    (case make_bytes (Size file) of
       None \<Rightarrow> \<lparr>handler = h, outcome = Panic ''makeslice: len out of range'', calls = t\<rparr>
     | Some content \<Rightarrow>
         (case Read f (length content) of (data, rerr) \<Rightarrow>
           (let t = t @ [FileRead (length content)];
                content = read_into content data
            in
            case rerr of
              Some e \<Rightarrow>
                (let h = zap_log ErrorLevel h ''failed to read file content''
                           [zString ''filename'' (Filename file), zError e];
                     r = WithReason ErrInternalServer (''Failed to read file: '' @ e)
                 in \<lparr>handler = h, outcome = Responded r, calls = t @ [Send r]\<rparr>)
            | None \<Rightarrow> convert_content E h c t content)))"

text \<open>
  \<^verbatim>\<open>HandleImport\<close>, lines 33 to 57 and the parts above. The deferred \<^verbatim>\<open>f.Close()\<close> runs
  when the method returns or panics, whichever way it leaves: it is the last event of
  every path on which the file was opened.
\<close>

definition HandleImport ::
  "('st, 'nt, 'ctx, 'm) env \<Rightarrow> ('db, 'st, 'nt) OpenAPI \<Rightarrow> 'ctx Context
     \<Rightarrow> ('db, 'st, 'nt, 'ctx, 'm) result" where
  "HandleImport E h c =
    (let h = zap_log InfoLevel h ''handling OpenAPI import request'' [] in
     case FormFile c ''file'' of
       Inl e \<Rightarrow>
         (let h = zap_log ErrorLevel h ''failed to get file from request'' [zError e];
              r = WithReason ErrBadRequest (''Failed to get file: '' @ e)
          in \<lparr>handler = h, outcome = Responded r, calls = [Send r]\<rparr>)
     | Inr file \<Rightarrow>
         (let h = zap_log DebugLevel h ''processing OpenAPI file''
                    [zString ''filename'' (Filename file), zInt64 ''size'' (Size file)];
              t = [FileOpen]
          in
          case Open file of
            Inl e \<Rightarrow>
              (let h = zap_log ErrorLevel h ''failed to open uploaded file''
                         [zString ''filename'' (Filename file), zError e];
                   r = WithReason ErrInternalServer (''Failed to open file: '' @ e)
               in \<lparr>handler = h, outcome = Responded r, calls = t @ [Send r]\<rparr>)
          | Inr f \<Rightarrow>
              (let res = read_content E h c t file f
               in res\<lparr>calls := calls res @ [FileClose]\<rparr>)))"

subsection \<open>Reading the events and the outcome\<close>

text \<open>Which collaborator an event is a call of, and what it carries.\<close>

fun is_read :: "('ctx, 'm) event \<Rightarrow> bool" where
  "is_read (FileRead n) = True"
| "is_read ev = False"

fun is_convert :: "('ctx, 'm) event \<Rightarrow> bool" where
  "is_convert (ConvertCall bs) = True"
| "is_convert (ConvertWithOptionsCall bs tenant prefix) = True"
| "is_convert ev = False"

fun is_create :: "('ctx, 'm) event \<Rightarrow> bool" where
  "is_create (CreateCall x config) = True"
| "is_create ev = False"

fun is_notify :: "('ctx, 'm) event \<Rightarrow> bool" where
  "is_notify (NotifyUpdateCall x config) = True"
| "is_notify ev = False"

definition is_collaborator :: "('ctx, 'm) event \<Rightarrow> bool" where
  "is_collaborator ev = (is_create ev \<or> is_notify ev)"

text \<open>The configurations that a response carries in its payload.\<close>

fun value_configs :: "'m json_value \<Rightarrow> 'm MCPConfig_scheme list" where
  "value_configs (JConfig config) = [config]"
| "value_configs (JString s) = []"

fun response_configs :: "'m response \<Rightarrow> 'm MCPConfig_scheme list" where
  "response_configs (Created msg kvs) = concat (map (value_configs \<circ> snd) kvs)"
| "response_configs (RespondWithError e ps) = []"

fun outcome_configs :: "'m outcome \<Rightarrow> 'm MCPConfig_scheme list" where
  "outcome_configs (Responded r) = response_configs r"
| "outcome_configs (Panic msg) = []"

text \<open>
  The configurations, the document bytes and the contexts that an event hands to a
  collaborator or sends.
\<close>

fun event_configs :: "('ctx, 'm) event \<Rightarrow> 'm MCPConfig_scheme list" where
  "event_configs (CreateCall x config) = [config]"
| "event_configs (NotifyUpdateCall x config) = [config]"
| "event_configs (Send r) = response_configs r"
| "event_configs ev = []"

fun event_bytes :: "('ctx, 'm) event \<Rightarrow> byte list list" where
  "event_bytes (ConvertCall bs) = [bs]"
| "event_bytes (ConvertWithOptionsCall bs tenant prefix) = [bs]"
| "event_bytes ev = []"

fun event_contexts :: "('ctx, 'm) event \<Rightarrow> 'ctx list" where
  "event_contexts (CreateCall x config) = [x]"
| "event_contexts (NotifyUpdateCall x config) = [x]"
| "event_contexts ev = []"

subsection \<open>A concrete deployment\<close>

text \<open>
  Stand-ins for the collaborators, to run the handler on: a file that delivers at most
  \<open>k\<close> of its bytes to one read, a converter that accepts documents opening with a
  brace, a store that refuses a name it already holds, a notifier that records the
  names it announced and one whose gateway is unreachable.
\<close>

definition spec_bytes :: "byte list" where
  "spec_bytes = [0x7B, 0x7D]"

definition junk_bytes :: "byte list" where
  "junk_bytes = [0x3C, 0x3E, 0x21]"

definition file_delivering :: "nat \<Rightarrow> byte list \<Rightarrow> File" where
  "file_delivering k bs = \<lparr>Read = (\<lambda>n. (take (min k n) bs, None))\<rparr>"

definition upload_of :: "nat \<Rightarrow> byte list \<Rightarrow> FileHeader" where
  "upload_of k bs =
     \<lparr>Filename = ''api.json'', Size = int (length bs), Open = Inr (file_delivering k bs)\<rparr>"

definition request_of :: "FileHeader \<Rightarrow> string \<Rightarrow> string \<Rightarrow> nat Context" where
  "request_of fh tenant prefix =
     \<lparr>FormFile = (\<lambda>name. if name = ''file'' then Inr fh else Inl ''http: no such file''),
      PostForm = (\<lambda>key. if key = ''tenantId'' then tenant
                         else if key = ''prefix'' then prefix else []),
      Request_Context = 7\<rparr>"

definition petstore :: MCPConfig where
  "petstore = \<lparr>Name = ''petstore''\<rparr>"

definition demo_convert :: "byte list \<Rightarrow> err + MCPConfig" where
  "demo_convert bs =
     (if bs = [] then Inl ''empty document''
      else if hd bs = 0x7B then Inr petstore else Inl ''malformed document'')"

definition demo_create :: "nat \<Rightarrow> MCPConfig \<Rightarrow> string list \<Rightarrow> err option \<times> string list" where
  "demo_create x config names =
     (if Name config \<in> set names then (Some ''server already exists'', names)
      else (None, names @ [Name config]))"

definition demo_env :: "(string list, string list, nat, unit) env" where
  "demo_env =
     \<lparr>Convert = demo_convert,
      ConvertWithOptions = (\<lambda>bs tenant prefix. demo_convert bs),
      Create = demo_create,
      NotifyUpdate = (\<lambda>x config sent. (None, sent @ [Name config]))\<rparr>"

definition unreachable_env :: "(string list, string list, nat, unit) env" where
  "unreachable_env =
     demo_env\<lparr>NotifyUpdate := (\<lambda>x config sent. (Some ''gateway unreachable'', sent))\<rparr>"

definition fresh_handler :: "(nat, string list, string list) OpenAPI" where
  "fresh_handler = NewOpenAPI 0 [] [] []"

definition used_handler :: "(nat, string list, string list) OpenAPI" where
  "used_handler = NewOpenAPI 0 [''petstore''] [''petstore''] []"

text \<open>
  A second deployment, whose collaborators tell what they were given: a converter that
  names the configuration \<^verbatim>\<open>default-name\<close> on its own and after the tenant and the prefix
  when it is given them, a converter that takes one document only, byte for byte, and a
  store and a notifier that record the context and the name of each call.
\<close>

definition named_convert :: "string \<Rightarrow> byte list \<Rightarrow> err + MCPConfig" where
  "named_convert name bs =
     (if bs = [] then Inl ''empty document''
      else if hd bs = 0x7B then Inr \<lparr>Name = name\<rparr> else Inl ''malformed document'')"

definition record_call ::
  "nat \<Rightarrow> MCPConfig \<Rightarrow> (nat \<times> string) list \<Rightarrow> err option \<times> (nat \<times> string) list" where
  "record_call x config seen = (None, seen @ [(x, Name config)])"

definition recording_env :: "((nat \<times> string) list, (nat \<times> string) list, nat, unit) env" where
  "recording_env =
     \<lparr>Convert = named_convert ''default-name'',
      ConvertWithOptions = (\<lambda>bs tenant prefix. named_convert (tenant @ ''|'' @ prefix) bs),
      Create = record_call,
      NotifyUpdate = record_call\<rparr>"

definition padded_env :: "((nat \<times> string) list, (nat \<times> string) list, nat, unit) env" where
  "padded_env =
     recording_env\<lparr>Convert :=
       (\<lambda>bs. if bs = [0x7B, 0] then Inr petstore else Inl ''unexpected bytes'')\<rparr>"

definition recording_handler :: "(nat, (nat \<times> string) list, (nat \<times> string) list) OpenAPI" where
  "recording_handler = NewOpenAPI 0 [] [] []"

section \<open>Properties of the import\<close>

subsection \<open>The parts of the method, one by one\<close>

lemmas run_all = HandleImport_def read_content_def convert_content_def create_server_def
  notify_gateway_def zap_log_def WithReason_def make_bytes_def Let_def case_prod_beta

lemma snd_convert_spec [simp]:
  "is_convert (snd (convert_spec E b tenant prefix))"
  "\<not> is_create (snd (convert_spec E b tenant prefix))"
  "\<not> is_notify (snd (convert_spec E b tenant prefix))"
  "\<not> is_read (snd (convert_spec E b tenant prefix))"
  "event_configs (snd (convert_spec E b tenant prefix)) = []"
  "event_contexts (snd (convert_spec E b tenant prefix)) = []"
  "event_bytes (snd (convert_spec E b tenant prefix)) = [b]"
  by (simp_all add: convert_spec_def)

lemma read_into_zeros:
  "read_into (replicate n 0) data = take n data @ replicate (n - length data) 0"
  by (simp add: read_into_def Let_def min_def)

lemma length_read_into [simp]: "length (read_into p data) = length p"
  by (simp add: read_into_def Let_def)

text \<open>The database field through the parts.\<close>

lemma db_notify_gateway: "db (handler (notify_gateway E h c t config)) = db h"
  by (simp add: notify_gateway_def zap_log_def Let_def case_prod_beta split: option.splits)

lemma db_create_server: "db (handler (create_server E h c t config)) = db h"
  by (simp add: create_server_def db_notify_gateway zap_log_def Let_def case_prod_beta
      split: option.splits)

lemma db_convert_content: "db (handler (convert_content E h c t content)) = db h"
  by (simp add: convert_content_def db_create_server zap_log_def Let_def case_prod_beta
      split: sum.splits)

lemma db_read_content: "db (handler (read_content E h c t file f)) = db h"
  by (simp add: read_content_def db_convert_content zap_log_def Let_def case_prod_beta
      split: option.splits)

lemma zap_log_db_update:
  "zap_log l (h\<lparr>db := d\<rparr>) msg fs = (zap_log l h msg fs)\<lparr>db := d\<rparr>"
  by (simp add: zap_log_def)

lemma notify_gateway_db_update:
  "notify_gateway E (h\<lparr>db := d\<rparr>) c t config =
     (notify_gateway E h c t config)
       \<lparr>handler := (handler (notify_gateway E h c t config))\<lparr>db := d\<rparr>\<rparr>"
  by (cases h)
    (simp add: notify_gateway_def zap_log_def Let_def case_prod_beta split: option.splits)

lemma create_server_db_update:
  "create_server E (h\<lparr>db := d\<rparr>) c t config =
     (create_server E h c t config)
       \<lparr>handler := (handler (create_server E h c t config))\<lparr>db := d\<rparr>\<rparr>"
  by (cases h)
    (simp add: create_server_def zap_log_def Let_def case_prod_beta
      notify_gateway_db_update [symmetric] split: option.splits)

lemma convert_content_db_update:
  "convert_content E (h\<lparr>db := d\<rparr>) c t content =
     (convert_content E h c t content)
       \<lparr>handler := (handler (convert_content E h c t content))\<lparr>db := d\<rparr>\<rparr>"
  by (cases h)
    (simp add: convert_content_def zap_log_def Let_def case_prod_beta
      create_server_db_update [symmetric] split: sum.splits)

lemma read_content_db_update:
  "read_content E (h\<lparr>db := d\<rparr>) c t file f =
     (read_content E h c t file f)
       \<lparr>handler := (handler (read_content E h c t file f))\<lparr>db := d\<rparr>\<rparr>"
  by (cases h)
    (simp add: read_content_def zap_log_def Let_def case_prod_beta
      convert_content_db_update [symmetric] split: option.splits)

text \<open>The events that the parts after the conversion add.\<close>

lemma filter_notify_gateway:
  assumes "\<And>x k. \<not> P (NotifyUpdateCall x k)" and "\<And>r. \<not> P (Send r)"
  shows "filter P (calls (notify_gateway E h c t config)) = filter P t"
  using assms
  by (simp add: notify_gateway_def Let_def case_prod_beta split: option.splits)

lemma filter_create_server:
  assumes "\<And>x k. \<not> P (CreateCall x k)" and "\<And>x k. \<not> P (NotifyUpdateCall x k)"
    and "\<And>r. \<not> P (Send r)"
  shows "filter P (calls (create_server E h c t config)) = filter P t"
  using assms
  by (simp add: create_server_def filter_notify_gateway Let_def case_prod_beta
      split: option.splits)

lemma bytes_notify_gateway:
  "concat (map event_bytes (calls (notify_gateway E h c t config))) =
     concat (map event_bytes t)"
  by (simp add: notify_gateway_def Let_def case_prod_beta split: option.splits)

lemma bytes_create_server:
  "concat (map event_bytes (calls (create_server E h c t config))) =
     concat (map event_bytes t)"
  by (simp add: create_server_def bytes_notify_gateway Let_def case_prod_beta
      split: option.splits)

text \<open>A property of every event is kept by each part if the events it adds have it.\<close>

lemma list_all_create_server:
  assumes "\<And>r. P (Send r)" and "list_all P t"
    and "P (CreateCall (Request_Context c) config)"
    and "P (NotifyUpdateCall (Request_Context c) config)"
  shows "list_all P (calls (create_server E h c t config))"
  using assms
  by (simp add: create_server_def notify_gateway_def Let_def case_prod_beta
      split: option.splits)

lemma list_all_convert_content:
  assumes "\<And>r. P (Send r)" and "list_all P t" and "P NewConverter"
    and "P (snd (convert_spec E content (PostForm c ''tenantId'') (PostForm c ''prefix'')))"
    and "\<And>k. P (CreateCall (Request_Context c) k)"
    and "\<And>k. P (NotifyUpdateCall (Request_Context c) k)"
  shows "list_all P (calls (convert_content E h c t content))"
  using assms
  by (simp add: convert_content_def list_all_create_server Let_def case_prod_beta
      split: sum.splits)

lemma list_all_read_content:
  assumes "\<And>r. P (Send r)" and "list_all P t" and "P NewConverter"
    and "\<And>n. P (FileRead n)"
    and "\<And>b. P (snd (convert_spec E b (PostForm c ''tenantId'') (PostForm c ''prefix'')))"
    and "\<And>k. P (CreateCall (Request_Context c) k)"
    and "\<And>k. P (NotifyUpdateCall (Request_Context c) k)"
  shows "list_all P (calls (read_content E h c t file f))"
  using assms
  by (simp add: read_content_def list_all_convert_content Let_def case_prod_beta
      split: option.splits)

lemma configs_create_server:
  assumes "list_all (\<lambda>ev. list_all (\<lambda>k. k = config) (event_configs ev)) t"
  shows "list_all (\<lambda>ev. list_all (\<lambda>k. k = config) (event_configs ev))
           (calls (create_server E h c t config))"
  using assms
  by (simp add: create_server_def notify_gateway_def WithReason_def Let_def case_prod_beta
      split: option.splits)

lemma outcome_configs_create_server:
  "list_all (\<lambda>k. k = config) (outcome_configs (outcome (create_server E h c t config)))"
  by (simp add: create_server_def notify_gateway_def WithReason_def Let_def
      case_prod_beta split: option.splits)

lemma create_call_create_server:
  "CreateCall (Request_Context c) config \<in> set (calls (create_server E h c t config))"
  by (simp add: create_server_def notify_gateway_def Let_def case_prod_beta
      split: option.splits)

text \<open>What the parts from the store on leave behind, in terms of the two calls.\<close>

lemma zap_log_fields [simp]:
  "store (zap_log l h msg fs) = store h"
  "notifier (zap_log l h msg fs) = notifier h"
  by (simp_all add: zap_log_def)

lemma store_create_server:
  "store (handler (create_server E h c t config)) =
     snd (Create E (Request_Context c) config (store h))"
  by (simp add: create_server_def notify_gateway_def Let_def case_prod_beta
      split: option.splits)

lemma notifier_create_server:
  "notifier (handler (create_server E h c t config)) =
     (if fst (Create E (Request_Context c) config (store h)) = None
      then snd (NotifyUpdate E (Request_Context c) config (notifier h))
      else notifier h)"
  by (simp add: create_server_def notify_gateway_def Let_def case_prod_beta
      split: option.splits)

lemma outcome_create_server:
  "outcome (create_server E h c t config) =
     (case fst (Create E (Request_Context c) config (store h)) of
        Some e \<Rightarrow>
          Responded (RespondWithError ErrInternalServer
            [(''Reason'', ''Failed to create MCP server: '' @ e)])
      | None \<Rightarrow>
          (case fst (NotifyUpdate E (Request_Context c) config (notifier h)) of
             Some e \<Rightarrow>
               Responded (RespondWithError ErrInternalServer
                 [(''Reason'', ''Failed to notify gateway: '' @ e)])
           | None \<Rightarrow>
               Responded (Created SuccessOpenAPIImported
                 [(''status'', JString ''success''), (''config'', JConfig config)])))"
  by (simp add: create_server_def notify_gateway_def WithReason_def Let_def case_prod_beta
      split: option.splits)

lemma collaborators_create_server:
  "filter is_collaborator (calls (create_server E h c t config)) =
     filter is_collaborator t @
     (if fst (Create E (Request_Context c) config (store h)) = None
      then [CreateCall (Request_Context c) config,
            NotifyUpdateCall (Request_Context c) config]
      else [CreateCall (Request_Context c) config])"
  by (simp add: create_server_def notify_gateway_def is_collaborator_def Let_def
      case_prod_beta split: option.splits)

lemma fst_convert_spec:
  "fst (convert_spec E b tenant prefix) =
     (if tenant = '''' \<and> prefix = '''' then Convert E b
      else ConvertWithOptions E b tenant prefix)"
  by (simp add: convert_spec_def)

lemma snd_convert_spec_if:
  "snd (convert_spec E b tenant prefix) =
     (if tenant = '''' \<and> prefix = '''' then ConvertCall b
      else ConvertWithOptionsCall b tenant prefix)"
  by (simp add: convert_spec_def)

lemma after_conversion:
  assumes "FormFile c ''file'' = Inr file" and "Open file = Inr f" and "0 \<le> Size file"
    and "Read f (nat (Size file)) = (data, None)"
  shows "case fst (convert_spec E (read_into (replicate (nat (Size file)) 0) data)
                (PostForm c ''tenantId'') (PostForm c ''prefix'')) of
        Inl e \<Rightarrow>
          outcome (HandleImport E h c) =
            Responded (RespondWithError ErrBadRequest
              [(''Reason'', ''Failed to convert OpenAPI specification: '' @ e)])
      | Inr config \<Rightarrow>
          store (handler (HandleImport E h c)) =
            snd (Create E (Request_Context c) config (store h)) \<and>
          outcome_configs (outcome (HandleImport E h c)) =
            (if fst (Create E (Request_Context c) config (store h)) = None \<and>
                fst (NotifyUpdate E (Request_Context c) config (notifier h)) = None
             then [config] else [])"
  using assms
  by (simp add: HandleImport_def read_content_def convert_content_def make_bytes_def
      store_create_server outcome_create_server WithReason_def
      Let_def case_prod_beta split: sum.splits option.splits)

lemma contexts_in_trace:
  "list_all (\<lambda>ev. list_all (\<lambda>x. x = Request_Context c) (event_contexts ev))
     (calls (HandleImport E h c))"
  by (simp add: HandleImport_def Let_def list_all_read_content split: sum.splits)

subsection \<open>The stand-ins, evaluated\<close>

lemma request_of_simps [simp]:
  "FormFile (request_of fh tenant prefix) ''file'' = Inr fh"
  "PostForm (request_of fh tenant prefix) ''tenantId'' = tenant"
  "PostForm (request_of fh tenant prefix) ''prefix'' = prefix"
  "Request_Context (request_of fh tenant prefix) = 7"
  by (simp_all add: request_of_def)

lemma upload_of_simps [simp]:
  "Open (upload_of k bs) = Inr (file_delivering k bs)"
  "Size (upload_of k bs) = int (length bs)"
  "Filename (upload_of k bs) = ''api.json''"
  by (simp_all add: upload_of_def)

lemma Read_file_delivering [simp]:
  "Read (file_delivering k bs) n = (take (min k n) bs, None)"
  by (simp add: file_delivering_def)

lemma demo_env_simps [simp]:
  "Convert demo_env = demo_convert"
  "ConvertWithOptions demo_env bs tenant prefix = demo_convert bs"
  "Create demo_env = demo_create"
  "NotifyUpdate demo_env x config sent = (None, sent @ [Name config])"
  "Convert unreachable_env = demo_convert"
  "ConvertWithOptions unreachable_env bs tenant prefix = demo_convert bs"
  "Create unreachable_env = demo_create"
  "NotifyUpdate unreachable_env x config sent = (Some ''gateway unreachable'', sent)"
  by (simp_all add: demo_env_def unreachable_env_def)

lemma handler_simps [simp]:
  "store fresh_handler = []" "notifier fresh_handler = []"
  "db fresh_handler = 0" "logger fresh_handler = []"
  "store used_handler = [''petstore'']" "notifier used_handler = [''petstore'']"
  "db used_handler = 0" "logger used_handler = []"
  by (simp_all add: fresh_handler_def used_handler_def NewOpenAPI_def)

lemma demo_read_into [simp]:
  "take (Suc 0) spec_bytes = [0x7B]"
  "read_into (replicate 2 0) [0x7B] = [0x7B, 0]"
  "read_into (replicate 2 0) spec_bytes = spec_bytes"
  "read_into (replicate 3 0) junk_bytes = junk_bytes"
  by (simp_all add: read_into_def spec_bytes_def junk_bytes_def)

lemma demo_convert_simps [simp]:
  "demo_convert spec_bytes = Inr petstore"
  "demo_convert [0x7B, 0] = Inr petstore"
  "demo_convert junk_bytes = Inl ''malformed document''"
  by (simp_all add: demo_convert_def spec_bytes_def junk_bytes_def)

lemma demo_lengths [simp]: "length spec_bytes = 2" "length junk_bytes = 3"
  by (simp_all add: spec_bytes_def junk_bytes_def)

lemma Name_petstore [simp]: "Name petstore = ''petstore''"
  by (simp add: petstore_def)

lemma recording_simps [simp]:
  "Convert recording_env = named_convert ''default-name''"
  "ConvertWithOptions recording_env bs tenant prefix = named_convert (tenant @ ''|'' @ prefix) bs"
  "Create recording_env = record_call"
  "NotifyUpdate recording_env = record_call"
  "Convert padded_env bs = (if bs = [0x7B, 0] then Inr petstore else Inl ''unexpected bytes'')"
  "Create padded_env = record_call"
  "NotifyUpdate padded_env = record_call"
  "store recording_handler = []" "notifier recording_handler = []"
  "named_convert name spec_bytes = Inr \<lparr>Name = name\<rparr>"
  "record_call x config seen = (None, seen @ [(x, Name config)])"
  by (simp_all add: recording_env_def padded_env_def recording_handler_def NewOpenAPI_def
      named_convert_def record_call_def spec_bytes_def)

subsection \<open>The choice of the converter's method\<close>

text \<open>
  Claim C1. For a request whose file was read, the handler makes one call of the
  converter: \<^verbatim>\<open>Convert\<close> on the bytes read exactly when the form values \<^verbatim>\<open>tenantId\<close> and
  \<^verbatim>\<open>prefix\<close> are both empty, and otherwise \<^verbatim>\<open>ConvertWithOptions\<close> on the bytes and the two
  form values as they are. With tenant \<open>t\<close> and an empty prefix, the empty prefix is the
  argument. The handler goes on with the result of that very call, for any converter and
  store: if it is an error the request is rejected with it, and if it is a configuration
  the store is what \<^verbatim>\<open>Create\<close> makes of that configuration, which is also the only
  configuration an answer can carry.
\<close>

theorem convert_call_follows_hint:
  assumes "FormFile c ''file'' = Inr file" and "Open file = Inr f" and "0 \<le> Size file"
    and "Read f (nat (Size file)) = (data, None)"
  shows "filter is_convert (calls (HandleImport E h c)) =
     [if PostForm c ''tenantId'' = '''' \<and> PostForm c ''prefix'' = ''''
      then ConvertCall (read_into (replicate (nat (Size file)) 0) data)
      else ConvertWithOptionsCall (read_into (replicate (nat (Size file)) 0) data)
             (PostForm c ''tenantId'') (PostForm c ''prefix'')] \<and>
     (case (if PostForm c ''tenantId'' = '''' \<and> PostForm c ''prefix'' = ''''
            then Convert E (read_into (replicate (nat (Size file)) 0) data)
            else ConvertWithOptions E (read_into (replicate (nat (Size file)) 0) data)
                   (PostForm c ''tenantId'') (PostForm c ''prefix'')) of
        Inl e \<Rightarrow>
          outcome (HandleImport E h c) =
            Responded (RespondWithError ErrBadRequest
              [(''Reason'', ''Failed to convert OpenAPI specification: '' @ e)])
      | Inr config \<Rightarrow>
          store (handler (HandleImport E h c)) =
            snd (Create E (Request_Context c) config (store h)) \<and>
          outcome_configs (outcome (HandleImport E h c)) =
            (if fst (Create E (Request_Context c) config (store h)) = None \<and>
                fst (NotifyUpdate E (Request_Context c) config (notifier h)) = None
             then [config] else []))"
proof (rule conjI)
  show "filter is_convert (calls (HandleImport E h c)) =
     [if PostForm c ''tenantId'' = '''' \<and> PostForm c ''prefix'' = ''''
      then ConvertCall (read_into (replicate (nat (Size file)) 0) data)
      else ConvertWithOptionsCall (read_into (replicate (nat (Size file)) 0) data)
             (PostForm c ''tenantId'') (PostForm c ''prefix'')]"
    using assms
    by (simp add: HandleImport_def read_content_def convert_content_def make_bytes_def
        filter_create_server Let_def case_prod_beta snd_convert_spec_if split: sum.splits)
  show "case (if PostForm c ''tenantId'' = '''' \<and> PostForm c ''prefix'' = ''''
            then Convert E (read_into (replicate (nat (Size file)) 0) data)
            else ConvertWithOptions E (read_into (replicate (nat (Size file)) 0) data)
                   (PostForm c ''tenantId'') (PostForm c ''prefix'')) of
        Inl e \<Rightarrow>
          outcome (HandleImport E h c) =
            Responded (RespondWithError ErrBadRequest
              [(''Reason'', ''Failed to convert OpenAPI specification: '' @ e)])
      | Inr config \<Rightarrow>
          store (handler (HandleImport E h c)) =
            snd (Create E (Request_Context c) config (store h)) \<and>
          outcome_configs (outcome (HandleImport E h c)) =
            (if fst (Create E (Request_Context c) config (store h)) = None \<and>
                fst (NotifyUpdate E (Request_Context c) config (notifier h)) = None
             then [config] else [])"
    using after_conversion [OF assms, of E h] unfolding fst_convert_spec .
qed

theorem convert_call_follows_hint_witness:
  "filter is_convert (calls (HandleImport recording_env recording_handler
     (request_of (upload_of 2 spec_bytes) ''t'' ''''))) =
     [ConvertWithOptionsCall spec_bytes ''t'' ''''] \<and>
   store (handler (HandleImport recording_env recording_handler
     (request_of (upload_of 2 spec_bytes) ''t'' ''''))) = [(7, ''t|'')] \<and>
   filter is_convert (calls (HandleImport recording_env recording_handler
     (request_of (upload_of 2 spec_bytes) '''' ''''))) = [ConvertCall spec_bytes] \<and>
   store (handler (HandleImport recording_env recording_handler
     (request_of (upload_of 2 spec_bytes) '''' ''''))) = [(7, ''default-name'')]"
  using convert_call_follows_hint
    [of "request_of (upload_of 2 spec_bytes) ''t'' ''''" "upload_of 2 spec_bytes"
      "file_delivering 2 spec_bytes" spec_bytes recording_env recording_handler]
    convert_call_follows_hint
    [of "request_of (upload_of 2 spec_bytes) '''' ''''" "upload_of 2 spec_bytes"
      "file_delivering 2 spec_bytes" spec_bytes recording_env recording_handler]
  by simp

subsection \<open>Failure of the conversion\<close>

text \<open>
  Claim C2. When the conversion fails, the handler answers with the bad-request error
  whose reason is the converter's error after \<^verbatim>\<open>Failed to convert OpenAPI specification: \<close>,
  and neither \<^verbatim>\<open>Create\<close> nor \<^verbatim>\<open>NotifyUpdate\<close> is called: no such event, and the store
  and the notifier are as they were.
\<close>

theorem conversion_failure_rejects:
  assumes "FormFile c ''file'' = Inr file" and "Open file = Inr f" and "0 \<le> Size file"
    and "Read f (nat (Size file)) = (data, None)"
    and "fst (convert_spec E (read_into (replicate (nat (Size file)) 0) data)
                (PostForm c ''tenantId'') (PostForm c ''prefix'')) = Inl e"
  shows "outcome (HandleImport E h c) =
           Responded (RespondWithError ErrBadRequest
             [(''Reason'', ''Failed to convert OpenAPI specification: '' @ e)]) \<and>
         filter is_collaborator (calls (HandleImport E h c)) = [] \<and>
         store (handler (HandleImport E h c)) = store h \<and>
         notifier (handler (HandleImport E h c)) = notifier h"
  using assms by (simp add: run_all is_collaborator_def)

theorem conversion_failure_rejects_witness:
  "outcome (HandleImport demo_env used_handler
     (request_of (upload_of 3 junk_bytes) '''' '''')) =
     Responded (RespondWithError ErrBadRequest
       [(''Reason'', ''Failed to convert OpenAPI specification: malformed document'')]) \<and>
   filter is_collaborator (calls (HandleImport demo_env used_handler
     (request_of (upload_of 3 junk_bytes) '''' ''''))) = [] \<and>
   store (handler (HandleImport demo_env used_handler
     (request_of (upload_of 3 junk_bytes) '''' ''''))) = [''petstore'']"
  using conversion_failure_rejects
    [of "request_of (upload_of 3 junk_bytes) '''' ''''" "upload_of 3 junk_bytes"
      "file_delivering 3 junk_bytes" junk_bytes demo_env "''malformed document''"
      used_handler]
  by (simp add: convert_spec_def)

subsection \<open>Failure of the notification\<close>

text \<open>
  Claim C3 as it is stated does not hold of the handler: the answer to a failed
  notification is an error with a reason and nothing else. Here the store has taken the
  configuration, the notifier fails, and the configuration is not in the outcome.
\<close>

theorem notification_failure_response_counterexample:
  "store (handler (HandleImport unreachable_env fresh_handler
     (request_of (upload_of 2 spec_bytes) ''acme'' ''/v1''))) = [''petstore''] \<and>
   filter is_collaborator (calls (HandleImport unreachable_env fresh_handler
     (request_of (upload_of 2 spec_bytes) ''acme'' ''/v1''))) =
     [CreateCall 7 petstore, NotifyUpdateCall 7 petstore] \<and>
   outcome (HandleImport unreachable_env fresh_handler
     (request_of (upload_of 2 spec_bytes) ''acme'' ''/v1'')) =
     Responded (RespondWithError ErrInternalServer
       [(''Reason'', ''Failed to notify gateway: gateway unreachable'')]) \<and>
   petstore \<notin> set (outcome_configs (outcome (HandleImport unreachable_env fresh_handler
     (request_of (upload_of 2 spec_bytes) ''acme'' ''/v1''))))"
  by (simp add: run_all is_collaborator_def convert_spec_def demo_create_def)

text \<open>
  Claim C3, amended. When \<^verbatim>\<open>Create\<close> succeeds and \<^verbatim>\<open>NotifyUpdate\<close> fails, the handler
  answers with the internal-server error whose reason is the notifier's error after
  \<^verbatim>\<open>Failed to notify gateway: \<close>; the answer carries no configuration. The configuration
  given to \<^verbatim>\<open>NotifyUpdate\<close> is the one that was given to \<^verbatim>\<open>Create\<close>, no call of the store
  follows the failed notification, and the store is left as \<^verbatim>\<open>Create\<close> left it.
\<close>

theorem notification_failure_keeps_stored_configuration:
  assumes "FormFile c ''file'' = Inr file" and "Open file = Inr f" and "0 \<le> Size file"
    and "Read f (nat (Size file)) = (data, None)"
    and "fst (convert_spec E (read_into (replicate (nat (Size file)) 0) data)
                (PostForm c ''tenantId'') (PostForm c ''prefix'')) = Inr config"
    and "Create E (Request_Context c) config (store h) = (None, st)"
    and "NotifyUpdate E (Request_Context c) config (notifier h) = (Some e, nt)"
  shows "outcome (HandleImport E h c) =
           Responded (RespondWithError ErrInternalServer
             [(''Reason'', ''Failed to notify gateway: '' @ e)]) \<and>
         outcome_configs (outcome (HandleImport E h c)) = [] \<and>
         filter is_collaborator (calls (HandleImport E h c)) =
           [CreateCall (Request_Context c) config,
            NotifyUpdateCall (Request_Context c) config] \<and>
         store (handler (HandleImport E h c)) = st \<and>
         notifier (handler (HandleImport E h c)) = nt"
  using assms by (simp add: run_all is_collaborator_def)

theorem notification_failure_keeps_stored_configuration_witness:
  "outcome (HandleImport unreachable_env fresh_handler
     (request_of (upload_of 1 spec_bytes) ''t'' '''')) =
     Responded (RespondWithError ErrInternalServer
       [(''Reason'', ''Failed to notify gateway: gateway unreachable'')]) \<and>
   filter is_collaborator (calls (HandleImport unreachable_env fresh_handler
     (request_of (upload_of 1 spec_bytes) ''t'' ''''))) =
     [CreateCall 7 petstore, NotifyUpdateCall 7 petstore] \<and>
   store (handler (HandleImport unreachable_env fresh_handler
     (request_of (upload_of 1 spec_bytes) ''t'' ''''))) = [''petstore''] \<and>
   notifier (handler (HandleImport unreachable_env fresh_handler
     (request_of (upload_of 1 spec_bytes) ''t'' ''''))) = []"
  using notification_failure_keeps_stored_configuration
    [of "request_of (upload_of 1 spec_bytes) ''t'' ''''" "upload_of 1 spec_bytes"
      "file_delivering 1 spec_bytes" "take 1 spec_bytes" unreachable_env petstore
      fresh_handler "[''petstore'']" "''gateway unreachable''" "[]"]
  by (simp add: convert_spec_def demo_create_def)

subsection \<open>Failure of the store\<close>

text \<open>
  Claim C4. When the conversion succeeds and \<^verbatim>\<open>Create\<close> returns an error, the handler
  answers with the internal-server error whose reason is the store's error after
  \<^verbatim>\<open>Failed to create MCP server: \<close>; \<^verbatim>\<open>NotifyUpdate\<close> is not called and the notifier is as
  it was; the converter and \<^verbatim>\<open>Create\<close> were each called once, so nothing is retried, and
  the configuration is not in the answer.
\<close>

theorem store_failure_stops_before_notification:
  assumes "FormFile c ''file'' = Inr file" and "Open file = Inr f" and "0 \<le> Size file"
    and "Read f (nat (Size file)) = (data, None)"
    and "fst (convert_spec E (read_into (replicate (nat (Size file)) 0) data)
                (PostForm c ''tenantId'') (PostForm c ''prefix'')) = Inr config"
    and "Create E (Request_Context c) config (store h) = (Some e, st)"
  shows "outcome (HandleImport E h c) =
           Responded (RespondWithError ErrInternalServer
             [(''Reason'', ''Failed to create MCP server: '' @ e)]) \<and>
         filter is_notify (calls (HandleImport E h c)) = [] \<and>
         notifier (handler (HandleImport E h c)) = notifier h \<and>
         filter is_create (calls (HandleImport E h c)) =
           [CreateCall (Request_Context c) config] \<and>
         length (filter is_convert (calls (HandleImport E h c))) = 1 \<and>
         outcome_configs (outcome (HandleImport E h c)) = [] \<and>
         store (handler (HandleImport E h c)) = st"
  using assms by (simp add: run_all)

theorem store_failure_stops_before_notification_witness:
  "outcome (HandleImport demo_env used_handler
     (request_of (upload_of 2 spec_bytes) '''' '''')) =
     Responded (RespondWithError ErrInternalServer
       [(''Reason'', ''Failed to create MCP server: server already exists'')]) \<and>
   filter is_notify (calls (HandleImport demo_env used_handler
     (request_of (upload_of 2 spec_bytes) '''' ''''))) = [] \<and>
   filter is_create (calls (HandleImport demo_env used_handler
     (request_of (upload_of 2 spec_bytes) '''' ''''))) = [CreateCall 7 petstore] \<and>
   notifier (handler (HandleImport demo_env used_handler
     (request_of (upload_of 2 spec_bytes) '''' ''''))) = [''petstore'']"
  using store_failure_stops_before_notification
    [of "request_of (upload_of 2 spec_bytes) '''' ''''" "upload_of 2 spec_bytes"
      "file_delivering 2 spec_bytes" spec_bytes demo_env petstore used_handler
      "''server already exists''" "[''petstore'']"]
  by (simp add: convert_spec_def demo_create_def)

subsection \<open>Success\<close>

text \<open>
  Claim C5. When the conversion, \<^verbatim>\<open>Create\<close> and \<^verbatim>\<open>NotifyUpdate\<close> all succeed, the handler
  answers \<^verbatim>\<open>Created\<close> with the converted configuration, having called \<^verbatim>\<open>Create\<close> once and
  then \<^verbatim>\<open>NotifyUpdate\<close> once, each with that configuration.
\<close>

theorem import_succeeds:
  assumes "FormFile c ''file'' = Inr file" and "Open file = Inr f" and "0 \<le> Size file"
    and "Read f (nat (Size file)) = (data, None)"
    and "fst (convert_spec E (read_into (replicate (nat (Size file)) 0) data)
                (PostForm c ''tenantId'') (PostForm c ''prefix'')) = Inr config"
    and "Create E (Request_Context c) config (store h) = (None, st)"
    and "NotifyUpdate E (Request_Context c) config (notifier h) = (None, nt)"
  shows "outcome (HandleImport E h c) =
           Responded (Created SuccessOpenAPIImported
             [(''status'', JString ''success''), (''config'', JConfig config)]) \<and>
         filter is_collaborator (calls (HandleImport E h c)) =
           [CreateCall (Request_Context c) config,
            NotifyUpdateCall (Request_Context c) config] \<and>
         store (handler (HandleImport E h c)) = st \<and>
         notifier (handler (HandleImport E h c)) = nt"
  using assms by (simp add: run_all is_collaborator_def)

theorem import_succeeds_witness:
  "outcome (HandleImport demo_env fresh_handler
     (request_of (upload_of 2 spec_bytes) ''acme'' ''/v1'')) =
     Responded (Created SuccessOpenAPIImported
       [(''status'', JString ''success''), (''config'', JConfig petstore)]) \<and>
   filter is_collaborator (calls (HandleImport demo_env fresh_handler
     (request_of (upload_of 2 spec_bytes) ''acme'' ''/v1''))) =
     [CreateCall 7 petstore, NotifyUpdateCall 7 petstore] \<and>
   store (handler (HandleImport demo_env fresh_handler
     (request_of (upload_of 2 spec_bytes) ''acme'' ''/v1''))) = [''petstore''] \<and>
   notifier (handler (HandleImport demo_env fresh_handler
     (request_of (upload_of 2 spec_bytes) ''acme'' ''/v1''))) = [''petstore'']"
  using import_succeeds
    [of "request_of (upload_of 2 spec_bytes) ''acme'' ''/v1''" "upload_of 2 spec_bytes"
      "file_delivering 2 spec_bytes" spec_bytes demo_env petstore fresh_handler
      "[''petstore'']" "[''petstore'']"]
  by (simp add: convert_spec_def demo_create_def)

subsection \<open>The configuration after the conversion\<close>

text \<open>
  Claim C6. The handler does not change the configuration after the conversion. For any
  store and notifier, the store after the request is what \<^verbatim>\<open>Create\<close> makes of the value
  the converter returned; when \<^verbatim>\<open>Create\<close> succeeds the notifier is what \<^verbatim>\<open>NotifyUpdate\<close>
  makes of that same value, and otherwise it is as it was; the answer carries that value
  when both succeed and no configuration otherwise. The events say the same: every
  configuration in them is that value, and \<^verbatim>\<open>Create\<close> is called with it.
\<close>

theorem configuration_handed_on_unchanged:
  assumes "FormFile c ''file'' = Inr file" and "Open file = Inr f" and "0 \<le> Size file"
    and "Read f (nat (Size file)) = (data, None)"
    and "(if PostForm c ''tenantId'' = '''' \<and> PostForm c ''prefix'' = ''''
          then Convert E (read_into (replicate (nat (Size file)) 0) data)
          else ConvertWithOptions E (read_into (replicate (nat (Size file)) 0) data)
                 (PostForm c ''tenantId'') (PostForm c ''prefix'')) = Inr config"
  shows "store (handler (HandleImport E h c)) =
           snd (Create E (Request_Context c) config (store h)) \<and>
         notifier (handler (HandleImport E h c)) =
           (if fst (Create E (Request_Context c) config (store h)) = None
            then snd (NotifyUpdate E (Request_Context c) config (notifier h))
            else notifier h) \<and>
         outcome_configs (outcome (HandleImport E h c)) =
           (if fst (Create E (Request_Context c) config (store h)) = None \<and>
               fst (NotifyUpdate E (Request_Context c) config (notifier h)) = None
            then [config] else []) \<and>
         (\<forall>ev \<in> set (calls (HandleImport E h c)). \<forall>k \<in> set (event_configs ev). k = config) \<and>
         CreateCall (Request_Context c) config \<in> set (calls (HandleImport E h c))"
proof -
  have conv: "fst (convert_spec E (read_into (replicate (nat (Size file)) 0) data)
      (PostForm c ''tenantId'') (PostForm c ''prefix'')) = Inr config"
    using assms(5) by (simp only: fst_convert_spec)
  have "store (handler (HandleImport E h c)) =
           snd (Create E (Request_Context c) config (store h))"
    using assms(1-4) conv
    by (simp add: HandleImport_def read_content_def convert_content_def make_bytes_def
        Let_def case_prod_beta store_create_server)
  moreover have "notifier (handler (HandleImport E h c)) =
           (if fst (Create E (Request_Context c) config (store h)) = None
            then snd (NotifyUpdate E (Request_Context c) config (notifier h))
            else notifier h)"
    using assms(1-4) conv
    by (simp add: HandleImport_def read_content_def convert_content_def make_bytes_def
        Let_def case_prod_beta notifier_create_server)
  moreover have "outcome_configs (outcome (HandleImport E h c)) =
           (if fst (Create E (Request_Context c) config (store h)) = None \<and>
               fst (NotifyUpdate E (Request_Context c) config (notifier h)) = None
            then [config] else [])"
    using assms(1-4) conv
    by (simp add: HandleImport_def read_content_def convert_content_def make_bytes_def
        Let_def case_prod_beta outcome_create_server split: option.splits)
  moreover have "list_all (\<lambda>ev. list_all (\<lambda>k. k = config) (event_configs ev))
          (calls (HandleImport E h c))"
    using assms(1-4) conv
    by (simp add: HandleImport_def read_content_def convert_content_def make_bytes_def
        Let_def case_prod_beta configs_create_server)
  moreover have "CreateCall (Request_Context c) config \<in> set (calls (HandleImport E h c))"
    using assms(1-4) conv
    by (simp add: HandleImport_def read_content_def convert_content_def make_bytes_def
        Let_def case_prod_beta create_call_create_server)
  ultimately show ?thesis unfolding list_all_iff by blast
qed

theorem configuration_handed_on_unchanged_witness:
  "store (handler (HandleImport recording_env recording_handler
     (request_of (upload_of 2 spec_bytes) ''acme'' ''/v1''))) = [(7, ''acme|/v1'')] \<and>
   notifier (handler (HandleImport recording_env recording_handler
     (request_of (upload_of 2 spec_bytes) ''acme'' ''/v1''))) = [(7, ''acme|/v1'')] \<and>
   outcome_configs (outcome (HandleImport recording_env recording_handler
     (request_of (upload_of 2 spec_bytes) ''acme'' ''/v1''))) = [\<lparr>Name = ''acme|/v1''\<rparr>] \<and>
   CreateCall 7 \<lparr>Name = ''acme|/v1''\<rparr> \<in> set (calls (HandleImport recording_env
     recording_handler (request_of (upload_of 2 spec_bytes) ''acme'' ''/v1'')))"
  using configuration_handed_on_unchanged
    [of "request_of (upload_of 2 spec_bytes) ''acme'' ''/v1''" "upload_of 2 spec_bytes"
      "file_delivering 2 spec_bytes" spec_bytes recording_env "\<lparr>Name = ''acme|/v1''\<rparr>"
      recording_handler]
  by simp

subsection \<open>The request's context\<close>

text \<open>
  Claim C7. The context that \<^verbatim>\<open>Create\<close> and \<^verbatim>\<open>NotifyUpdate\<close> receive is the context of the
  request, \<^verbatim>\<open>c.Request.Context()\<close>, itself. For any store and notifier, once the
  conversion has succeeded the store is what \<^verbatim>\<open>Create\<close> makes at that context, the
  notifier is what \<^verbatim>\<open>NotifyUpdate\<close> makes at that context when \<^verbatim>\<open>Create\<close> succeeds, and
  the answer is decided by the errors of those two applications. The collaborator events
  are these calls and no other, and every context in an event is that value. The handler
  has no other context to give: the type of contexts is a parameter of the model.
\<close>

theorem context_passed_unchanged:
  assumes "FormFile c ''file'' = Inr file" and "Open file = Inr f" and "0 \<le> Size file"
    and "Read f (nat (Size file)) = (data, None)"
    and "(if PostForm c ''tenantId'' = '''' \<and> PostForm c ''prefix'' = ''''
          then Convert E (read_into (replicate (nat (Size file)) 0) data)
          else ConvertWithOptions E (read_into (replicate (nat (Size file)) 0) data)
                 (PostForm c ''tenantId'') (PostForm c ''prefix'')) = Inr config"
  shows "store (handler (HandleImport E h c)) =
           snd (Create E (Request_Context c) config (store h)) \<and>
         notifier (handler (HandleImport E h c)) =
           (if fst (Create E (Request_Context c) config (store h)) = None
            then snd (NotifyUpdate E (Request_Context c) config (notifier h))
            else notifier h) \<and>
         outcome (HandleImport E h c) =
           (case fst (Create E (Request_Context c) config (store h)) of
              Some e \<Rightarrow>
                Responded (RespondWithError ErrInternalServer
                  [(''Reason'', ''Failed to create MCP server: '' @ e)])
            | None \<Rightarrow>
                (case fst (NotifyUpdate E (Request_Context c) config (notifier h)) of
                   Some e \<Rightarrow>
                     Responded (RespondWithError ErrInternalServer
                       [(''Reason'', ''Failed to notify gateway: '' @ e)])
                 | None \<Rightarrow>
                     Responded (Created SuccessOpenAPIImported
                       [(''status'', JString ''success''), (''config'', JConfig config)]))) \<and>
         filter is_collaborator (calls (HandleImport E h c)) =
           (if fst (Create E (Request_Context c) config (store h)) = None
            then [CreateCall (Request_Context c) config,
                  NotifyUpdateCall (Request_Context c) config]
            else [CreateCall (Request_Context c) config]) \<and>
         (\<forall>ev \<in> set (calls (HandleImport E h c)). \<forall>x \<in> set (event_contexts ev).
            x = Request_Context c)"
proof -
  have conv: "fst (convert_spec E (read_into (replicate (nat (Size file)) 0) data)
      (PostForm c ''tenantId'') (PostForm c ''prefix'')) = Inr config"
    using assms(5) by (simp only: fst_convert_spec)
  have "store (handler (HandleImport E h c)) =
           snd (Create E (Request_Context c) config (store h))"
    using assms(1-4) conv
    by (simp add: HandleImport_def read_content_def convert_content_def make_bytes_def
        Let_def case_prod_beta store_create_server)
  moreover have "notifier (handler (HandleImport E h c)) =
           (if fst (Create E (Request_Context c) config (store h)) = None
            then snd (NotifyUpdate E (Request_Context c) config (notifier h))
            else notifier h)"
    using assms(1-4) conv
    by (simp add: HandleImport_def read_content_def convert_content_def make_bytes_def
        Let_def case_prod_beta notifier_create_server)
  moreover have "outcome (HandleImport E h c) =
           (case fst (Create E (Request_Context c) config (store h)) of
              Some e \<Rightarrow>
                Responded (RespondWithError ErrInternalServer
                  [(''Reason'', ''Failed to create MCP server: '' @ e)])
            | None \<Rightarrow>
                (case fst (NotifyUpdate E (Request_Context c) config (notifier h)) of
                   Some e \<Rightarrow>
                     Responded (RespondWithError ErrInternalServer
                       [(''Reason'', ''Failed to notify gateway: '' @ e)])
                 | None \<Rightarrow>
                     Responded (Created SuccessOpenAPIImported
                       [(''status'', JString ''success''), (''config'', JConfig config)])))"
    using assms(1-4) conv
    by (simp add: HandleImport_def read_content_def convert_content_def make_bytes_def
        Let_def case_prod_beta outcome_create_server split: option.splits)
  moreover have "filter is_collaborator (calls (HandleImport E h c)) =
           (if fst (Create E (Request_Context c) config (store h)) = None
            then [CreateCall (Request_Context c) config,
                  NotifyUpdateCall (Request_Context c) config]
            else [CreateCall (Request_Context c) config])"
    using assms(1-4) conv
    by (simp add: HandleImport_def read_content_def convert_content_def make_bytes_def
        Let_def case_prod_beta collaborators_create_server is_collaborator_def)
  moreover have "\<forall>ev \<in> set (calls (HandleImport E h c)). \<forall>x \<in> set (event_contexts ev).
            x = Request_Context c"
    using contexts_in_trace [of c E h] by (simp add: list_all_iff)
  ultimately show ?thesis by blast
qed

theorem context_passed_unchanged_witness:
  "store (handler (HandleImport recording_env recording_handler
     (request_of (upload_of 2 spec_bytes) '''' ''/v2''))) = [(7, ''|/v2'')] \<and>
   notifier (handler (HandleImport recording_env recording_handler
     (request_of (upload_of 2 spec_bytes) '''' ''/v2''))) = [(7, ''|/v2'')] \<and>
   filter is_collaborator (calls (HandleImport recording_env recording_handler
     (request_of (upload_of 2 spec_bytes) '''' ''/v2''))) =
     [CreateCall 7 \<lparr>Name = ''|/v2''\<rparr>, NotifyUpdateCall 7 \<lparr>Name = ''|/v2''\<rparr>] \<and>
   Request_Context (request_of (upload_of 2 spec_bytes) '''' ''/v2'') = 7"
  using context_passed_unchanged
    [of "request_of (upload_of 2 spec_bytes) '''' ''/v2''" "upload_of 2 spec_bytes"
      "file_delivering 2 spec_bytes" spec_bytes recording_env "\<lparr>Name = ''|/v2''\<rparr>"
      recording_handler]
  by simp

subsection \<open>Rejection is a function of the bytes and the form values\<close>

text \<open>
  Claim C8. Two requests that deliver the same bytes, tenant and prefix, handled in any
  two states of the handler, get the same answer when the conversion of those bytes
  fails: the bad-request error with the converter's reason. The converter is a function
  of its arguments in the model.
\<close>

theorem rejection_is_deterministic:
  assumes "FormFile c ''file'' = Inr file" and "Open file = Inr f" and "0 \<le> Size file"
    and "Read f (nat (Size file)) = (data, None)"
    and "FormFile c' ''file'' = Inr file'" and "Open file' = Inr f'" and "0 \<le> Size file'"
    and "Read f' (nat (Size file')) = (data', None)"
    and "read_into (replicate (nat (Size file')) 0) data' =
         read_into (replicate (nat (Size file)) 0) data"
    and "PostForm c' ''tenantId'' = PostForm c ''tenantId''"
    and "PostForm c' ''prefix'' = PostForm c ''prefix''"
    and "fst (convert_spec E (read_into (replicate (nat (Size file)) 0) data)
                (PostForm c ''tenantId'') (PostForm c ''prefix'')) = Inl e"
  shows "outcome (HandleImport E h' c') = outcome (HandleImport E h c) \<and>
         outcome (HandleImport E h c) =
           Responded (RespondWithError ErrBadRequest
             [(''Reason'', ''Failed to convert OpenAPI specification: '' @ e)])"
  using assms by (simp add: run_all)

theorem rejection_is_deterministic_witness:
  "outcome (HandleImport demo_env used_handler
     (request_of (upload_of 5 junk_bytes) '''' '''')) =
   outcome (HandleImport demo_env fresh_handler
     (request_of (upload_of 3 junk_bytes) '''' '''')) \<and>
   outcome (HandleImport demo_env fresh_handler
     (request_of (upload_of 3 junk_bytes) '''' '''')) =
     Responded (RespondWithError ErrBadRequest
       [(''Reason'', ''Failed to convert OpenAPI specification: malformed document'')])"
  using rejection_is_deterministic
    [of "request_of (upload_of 3 junk_bytes) '''' ''''" "upload_of 3 junk_bytes"
      "file_delivering 3 junk_bytes" junk_bytes
      "request_of (upload_of 5 junk_bytes) '''' ''''" "upload_of 5 junk_bytes"
      "file_delivering 5 junk_bytes" junk_bytes demo_env "''malformed document''"
      used_handler fresh_handler]
  by (simp add: convert_spec_def)

subsection \<open>Reading the upload\<close>

text \<open>
  Claim C9. The handler reads the file with one call of \<^verbatim>\<open>Read\<close> on a buffer of
  \<^verbatim>\<open>file.Size\<close> bytes, and when that call returns no error the converter gets the whole
  buffer: the bytes the call delivered, followed by zeros up to \<^verbatim>\<open>file.Size\<close>. A read
  that delivers fewer bytes than announced is not rejected. The handler goes on with the
  converter's result on exactly that buffer, of length \<^verbatim>\<open>file.Size\<close>, for any converter:
  its error is the reason of the rejection, its configuration is the one stored.
\<close>

theorem one_read_fills_the_buffer:
  assumes "FormFile c ''file'' = Inr file" and "Open file = Inr f" and "0 \<le> Size file"
    and "Read f (nat (Size file)) = (data, None)"
  shows "filter is_read (calls (HandleImport E h c)) = [FileRead (nat (Size file))] \<and>
     concat (map event_bytes (calls (HandleImport E h c))) =
       [take (nat (Size file)) data @ replicate (nat (Size file) - length data) 0] \<and>
     length (take (nat (Size file)) data @ replicate (nat (Size file) - length data) 0) =
       nat (Size file) \<and>
     (case (if PostForm c ''tenantId'' = '''' \<and> PostForm c ''prefix'' = ''''
            then Convert E
                   (take (nat (Size file)) data @ replicate (nat (Size file) - length data) 0)
            else ConvertWithOptions E
                   (take (nat (Size file)) data @ replicate (nat (Size file) - length data) 0)
                   (PostForm c ''tenantId'') (PostForm c ''prefix'')) of
        Inl e \<Rightarrow>
          outcome (HandleImport E h c) =
            Responded (RespondWithError ErrBadRequest
              [(''Reason'', ''Failed to convert OpenAPI specification: '' @ e)])
      | Inr config \<Rightarrow>
          store (handler (HandleImport E h c)) =
            snd (Create E (Request_Context c) config (store h)) \<and>
          outcome_configs (outcome (HandleImport E h c)) =
            (if fst (Create E (Request_Context c) config (store h)) = None \<and>
                fst (NotifyUpdate E (Request_Context c) config (notifier h)) = None
             then [config] else []))"
proof -
  have "filter is_read (calls (HandleImport E h c)) = [FileRead (nat (Size file))]"
    using assms
    by (simp add: HandleImport_def read_content_def convert_content_def make_bytes_def
        filter_create_server Let_def case_prod_beta split: sum.splits)
  moreover have "concat (map event_bytes (calls (HandleImport E h c))) =
       [take (nat (Size file)) data @ replicate (nat (Size file) - length data) 0]"
    using assms
    by (simp add: HandleImport_def read_content_def convert_content_def make_bytes_def
        bytes_create_server read_into_zeros Let_def case_prod_beta split: sum.splits)
  moreover have "length (take (nat (Size file)) data @
       replicate (nat (Size file) - length data) 0) = nat (Size file)"
    by (simp add: min_def)
  moreover note after_conversion [OF assms, of E h, unfolded fst_convert_spec read_into_zeros]
  ultimately show ?thesis by (intro conjI)
qed

theorem one_read_fills_the_buffer_witness:
  "filter is_read (calls (HandleImport padded_env recording_handler
     (request_of (upload_of 1 spec_bytes) '''' ''''))) = [FileRead 2] \<and>
   concat (map event_bytes (calls (HandleImport padded_env recording_handler
     (request_of (upload_of 1 spec_bytes) '''' '''')))) = [[0x7B, 0]] \<and>
   store (handler (HandleImport padded_env recording_handler
     (request_of (upload_of 1 spec_bytes) '''' ''''))) = [(7, ''petstore'')] \<and>
   outcome_configs (outcome (HandleImport padded_env recording_handler
     (request_of (upload_of 1 spec_bytes) '''' ''''))) = [petstore]"
proof -
  have "filter is_read (calls (HandleImport padded_env recording_handler
          (request_of (upload_of 1 spec_bytes) '''' ''''))) =
          [FileRead (nat (Size (upload_of 1 spec_bytes)))] \<and>
        concat (map event_bytes (calls (HandleImport padded_env recording_handler
          (request_of (upload_of 1 spec_bytes) '''' '''')))) =
          [take (nat (Size (upload_of 1 spec_bytes))) [0x7B] @
           replicate (nat (Size (upload_of 1 spec_bytes)) - length [0x7B :: byte]) 0] \<and>
        length (take (nat (Size (upload_of 1 spec_bytes))) [0x7B :: byte] @
           replicate (nat (Size (upload_of 1 spec_bytes)) - length [0x7B :: byte]) 0) =
          nat (Size (upload_of 1 spec_bytes)) \<and>
        (case (if PostForm (request_of (upload_of 1 spec_bytes) '''' '''') ''tenantId'' = '''' \<and>
                  PostForm (request_of (upload_of 1 spec_bytes) '''' '''') ''prefix'' = ''''
               then Convert padded_env
                      (take (nat (Size (upload_of 1 spec_bytes))) [0x7B] @
                       replicate (nat (Size (upload_of 1 spec_bytes)) - length [0x7B :: byte]) 0)
               else ConvertWithOptions padded_env
                      (take (nat (Size (upload_of 1 spec_bytes))) [0x7B] @
                       replicate (nat (Size (upload_of 1 spec_bytes)) - length [0x7B :: byte]) 0)
                      (PostForm (request_of (upload_of 1 spec_bytes) '''' '''') ''tenantId'')
                      (PostForm (request_of (upload_of 1 spec_bytes) '''' '''') ''prefix'')) of
           Inl e \<Rightarrow>
             outcome (HandleImport padded_env recording_handler
               (request_of (upload_of 1 spec_bytes) '''' '''')) =
               Responded (RespondWithError ErrBadRequest
                 [(''Reason'', ''Failed to convert OpenAPI specification: '' @ e)])
         | Inr config \<Rightarrow>
             store (handler (HandleImport padded_env recording_handler
               (request_of (upload_of 1 spec_bytes) '''' ''''))) =
               snd (Create padded_env
                 (Request_Context (request_of (upload_of 1 spec_bytes) '''' '''')) config
                 (store recording_handler)) \<and>
             outcome_configs (outcome (HandleImport padded_env recording_handler
               (request_of (upload_of 1 spec_bytes) '''' ''''))) =
               (if fst (Create padded_env
                     (Request_Context (request_of (upload_of 1 spec_bytes) '''' '''')) config
                     (store recording_handler)) = None \<and>
                   fst (NotifyUpdate padded_env
                     (Request_Context (request_of (upload_of 1 spec_bytes) '''' '''')) config
                     (notifier recording_handler)) = None
                then [config] else []))"
    by (rule one_read_fills_the_buffer
        [of "request_of (upload_of 1 spec_bytes) '''' ''''" "upload_of 1 spec_bytes"
          "file_delivering 1 spec_bytes" "[0x7B]" padded_env recording_handler])
      simp_all
  then show ?thesis by simp
qed

subsection \<open>The database\<close>

text \<open>
  Claim C10. The import neither reads nor writes the injected database: on every path
  the \<open>db\<close> field of the handler is after the request what it was before, and a handler
  with any other database does the same, field by field, events and outcome included.
  The model has no event for a database call because the method makes none.
\<close>

theorem import_leaves_database:
  "db (handler (HandleImport E h c)) = db h \<and>
   HandleImport E (h\<lparr>db := d\<rparr>) c =
     (HandleImport E h c)\<lparr>handler := (handler (HandleImport E h c))\<lparr>db := d\<rparr>\<rparr>"
proof
  show "db (handler (HandleImport E h c)) = db h"
    by (simp add: HandleImport_def db_read_content zap_log_def Let_def split: sum.splits)
  show "HandleImport E (h\<lparr>db := d\<rparr>) c =
     (HandleImport E h c)\<lparr>handler := (handler (HandleImport E h c))\<lparr>db := d\<rparr>\<rparr>"
    by (rule result.equality)
      (simp_all add: HandleImport_def Let_def zap_log_db_update read_content_db_update
        split: sum.splits)
qed

end
